theory Spec2Isabelle
  imports Main
begin

section \<open>The Solution class of gpol/utils/solution.py\<close>

text \<open>
  The module defines one class, \<^verbatim>\<open>Solution\<close>, with a class attribute \<^verbatim>\<open>id_\<close> (a counter),
  a constructor, \<^verbatim>\<open>_get_copy\<close> and \<^verbatim>\<open>__len__\<close>. The model passes the mutable state
  explicitly: the counter, and a store of the mutable objects (lists and tensors) that
  attributes refer to, so that aliasing between a Solution and its copy can be stated.
\<close>

subsection \<open>Python values and the store\<close>

type_synonym addr = nat

text \<open>
  Immutable values are held directly, mutable objects by reference into the store.
  The type \<open>'e\<close> is the type of floating-point numbers (a Python \<^verbatim>\<open>float\<close>, an element of
  a tensor); the class never computes with them, so it stays a parameter.
\<close>

datatype 'e val = PNone | PBool bool | PInt int | PFloat 'e | Ref addr

text \<open>
  A \<^verbatim>\<open>list\<close> holds values (so references, for nested objects); a \<^verbatim>\<open>torch.Tensor\<close> is
  its shape and its elements in row-major order.
\<close>

datatype 'e obj = PyList "'e val list" | Tensor "nat list" "'e list"

type_synonym 'e heap = "'e obj list"

text \<open>
  The exceptions the operations can raise. \<open>UnsupportedRepresentationError\<close> is the name
  the specification uses for a failing length query; the module defines no such class.
\<close>

datatype py_error = AttributeError | TypeError | UnsupportedRepresentationError

text \<open>
  The store is the list of its cells, an address is an index. A Python run holds no
  reference outside the store; the primitives below treat one as an object that has
  neither the attribute nor the length asked for.
\<close>

definition deref :: "'e heap \<Rightarrow> addr \<Rightarrow> 'e obj option" where
  "deref h a = (if a < length h then Some (h ! a) else None)"

text \<open>Allocation appends a cell: the new address is the old size of the store.\<close>

definition alloc :: "'e heap \<Rightarrow> 'e obj \<Rightarrow> addr \<times> 'e heap" where
  "alloc h ob = (length h, h @ [ob])"

text \<open>
  Any in-place mutation of the object at address \<open>a\<close> (\<^verbatim>\<open>t[i] = x\<close>, \<^verbatim>\<open>l.append(v)\<close>,
  \<^verbatim>\<open>t.add_(1)\<close>, ...) replaces the content of that cell and of no other.
\<close>

definition mutate :: "'e heap \<Rightarrow> addr \<Rightarrow> 'e obj \<Rightarrow> 'e heap" where
  "mutate h a ob = (if a < length h then h[a := ob] else h)"

text \<open>\<^verbatim>\<open>type(v) is torch.Tensor\<close>\<close>

definition type_is_Tensor :: "'e heap \<Rightarrow> 'e val \<Rightarrow> bool" where
  "type_is_Tensor h v =
     (case v of
        Ref a \<Rightarrow> (case deref h a of Some (Tensor sh d) \<Rightarrow> True | _ \<Rightarrow> False)
      | _ \<Rightarrow> False)"

text \<open>\<^verbatim>\<open>type(v) is list\<close>\<close>

definition type_is_list :: "'e heap \<Rightarrow> 'e val \<Rightarrow> bool" where
  "type_is_list h v =
     (case v of
        Ref a \<Rightarrow> (case deref h a of Some (PyList vs) \<Rightarrow> True | _ \<Rightarrow> False)
      | _ \<Rightarrow> False)"

text \<open>
  \<^verbatim>\<open>v.clone()\<close>: a tensor returns a new tensor with the same shape and elements; no other
  value of the model has the attribute \<^verbatim>\<open>clone\<close> (in particular \<^verbatim>\<open>None\<close> and \<^verbatim>\<open>float\<close>),
  so the attribute lookup raises AttributeError.
\<close>

definition clone :: "'e heap \<Rightarrow> 'e val \<Rightarrow> (py_error + 'e val) \<times> 'e heap" where
  "clone h v =
     (case v of
        Ref a \<Rightarrow>
          (case deref h a of
             Some (Tensor sh d) \<Rightarrow> (let (b, h') = alloc h (Tensor sh d) in (Inr (Ref b), h'))
           | _ \<Rightarrow> (Inl AttributeError, h))
      | _ \<Rightarrow> (Inl AttributeError, h))"

text \<open>
  \<^verbatim>\<open>v.copy()\<close>: a list returns a new list holding the same elements (a shallow copy);
  \<^verbatim>\<open>None\<close>, \<^verbatim>\<open>bool\<close>, \<^verbatim>\<open>int\<close>, \<^verbatim>\<open>float\<close> and \<^verbatim>\<open>torch.Tensor\<close> have no attribute \<^verbatim>\<open>copy\<close>.
\<close>

definition copy :: "'e heap \<Rightarrow> 'e val \<Rightarrow> (py_error + 'e val) \<times> 'e heap" where
  "copy h v =
     (case v of
        Ref a \<Rightarrow>
          (case deref h a of
             Some (PyList vs) \<Rightarrow> (let (b, h') = alloc h (PyList vs) in (Inr (Ref b), h'))
           | _ \<Rightarrow> (Inl AttributeError, h))
      | _ \<Rightarrow> (Inl AttributeError, h))"

text \<open>
  \<^verbatim>\<open>len(v)\<close>: the length of a list; for a tensor the size of its first dimension, and
  TypeError (\<^verbatim>\<open>len() of a 0-d tensor\<close>) when it has none; TypeError
  (\<^verbatim>\<open>object of type ... has no len()\<close>) for \<^verbatim>\<open>None\<close>, \<^verbatim>\<open>bool\<close>, \<^verbatim>\<open>int\<close> and \<^verbatim>\<open>float\<close>.
\<close>

definition len :: "'e heap \<Rightarrow> 'e val \<Rightarrow> py_error + nat" where
  "len h v =
     (case v of
        Ref a \<Rightarrow>
          (case deref h a of
             Some (PyList vs) \<Rightarrow> Inr (length vs)
           | Some (Tensor sh d) \<Rightarrow> (case sh of [] \<Rightarrow> Inl TypeError | n # _ \<Rightarrow> Inr n)
           | None \<Rightarrow> Inl TypeError)
      | _ \<Rightarrow> Inl TypeError)"

text \<open>\<^verbatim>\<open>hasattr(self, name)\<close>, on an attribute that is present (\<open>Some\<close>) or absent.\<close>

definition hasattr :: "'a option \<Rightarrow> bool" where
  "hasattr x = (x \<noteq> None)"

subsection \<open>The class\<close>

text \<open>The state: the class attribute \<^verbatim>\<open>Solution.id_\<close> and the store.\<close>

record 'e state =
  class_id :: int
  heap :: "'e heap"

text \<open>
  An instance. \<^verbatim>\<open>_id\<close> and \<^verbatim>\<open>repr_\<close> are set by the constructor and read without a
  guard; the attributes that \<^verbatim>\<open>_get_copy\<close> tests with \<^verbatim>\<open>hasattr\<close> or reads
  (\<^verbatim>\<open>valid\<close>, \<^verbatim>\<open>fit\<close>, \<^verbatim>\<open>test_fit\<close>, \<^verbatim>\<open>val_fit\<close>) are optional: \<open>None\<close> is an absent
  attribute, \<open>Some PNone\<close> an attribute whose value is Python's \<^verbatim>\<open>None\<close>.
\<close>

record 'e Solution =
  inst_id :: int
  repr :: "'e val"
  valid :: "'e val option"
  fit :: "'e val option"
  test_fit :: "'e val option"
  val_fit :: "'e val option"

text \<open>The module starts with \<^verbatim>\<open>id_ = 0\<close>.\<close>

definition init_state :: "'e state" where
  "init_state = \<lparr>class_id = 0, heap = []\<rparr>"

text \<open>
  \<^verbatim>\<open>Solution.__init__\<close> (lines 49-53): takes the counter as id, increments the counter,
  stores the representation and sets \<^verbatim>\<open>valid\<close> and \<^verbatim>\<open>fit\<close> to \<^verbatim>\<open>None\<close>.
\<close>

definition Solution_init :: "'e state \<Rightarrow> 'e val \<Rightarrow> 'e Solution \<times> 'e state" where
  "Solution_init st r =
     (\<lparr>inst_id = class_id st, repr = r, valid = Some PNone, fit = Some PNone,
       test_fit = None, val_fit = None\<rparr>,
      st\<lparr>class_id := class_id st + 1\<rparr>)"

text \<open>
  \<^verbatim>\<open>Solution._get_copy\<close> (lines 68-79), statement by statement. An exception leaves the
  method at once; the state changed so far (the cloned representation in the store, the
  incremented counter) stays changed.
\<close>

text \<open>Lines 68-71: the copy of the representation, then the construction.\<close>

definition copy_repr :: "'e state \<Rightarrow> 'e Solution \<Rightarrow> (py_error + 'e Solution) \<times> 'e state" where
  "copy_repr st self =
     (case (if type_is_Tensor (heap st) (repr self)
            then clone (heap st) (repr self)
            else copy (heap st) (repr self)) of
        (Inl e, h) \<Rightarrow> (Inl e, st\<lparr>heap := h\<rparr>)
      | (Inr r, h) \<Rightarrow> (let (sol_copy, st') = Solution_init (st\<lparr>heap := h\<rparr>) r
                       in (Inr sol_copy, st')))"

text \<open>Lines 72-73.\<close>

definition copy_valid :: "'e Solution \<Rightarrow> 'e Solution \<Rightarrow> 'e Solution" where
  "copy_valid self sol_copy =
     (if hasattr (valid self) then sol_copy\<lparr>valid := valid self\<rparr> else sol_copy)"

text \<open>Lines 74-75.\<close>

definition copy_fit ::
  "'e state \<Rightarrow> 'e Solution \<Rightarrow> 'e Solution \<Rightarrow> (py_error + 'e Solution) \<times> 'e state" where
  "copy_fit st self sol_copy =
     (if hasattr (fit self) then
        (case clone (heap st) (the (fit self)) of
           (Inl e, h) \<Rightarrow> (Inl e, st\<lparr>heap := h\<rparr>)
         | (Inr f, h) \<Rightarrow> (Inr (sol_copy\<lparr>fit := Some f\<rparr>), st\<lparr>heap := h\<rparr>))
      else (Inr sol_copy, st))"

text \<open>
  Lines 76-77: the guard tests \<^verbatim>\<open>test_fit\<close>, the body reads \<^verbatim>\<open>self.val_fit\<close>
  (AttributeError when absent) and writes \<^verbatim>\<open>sol_copy.val_fit\<close>.
\<close>

definition copy_val_fit ::
  "'e state \<Rightarrow> 'e Solution \<Rightarrow> 'e Solution \<Rightarrow> (py_error + 'e Solution) \<times> 'e state" where
  "copy_val_fit st self sol_copy =
     (if hasattr (test_fit self) then
        (case val_fit self of
           None \<Rightarrow> (Inl AttributeError, st)
         | Some v \<Rightarrow>
             (case clone (heap st) v of
                (Inl e, h) \<Rightarrow> (Inl e, st\<lparr>heap := h\<rparr>)
              | (Inr f, h) \<Rightarrow> (Inr (sol_copy\<lparr>val_fit := Some f\<rparr>), st\<lparr>heap := h\<rparr>)))
      else (Inr sol_copy, st))"

definition Solution_get_copy ::
  "'e state \<Rightarrow> 'e Solution \<Rightarrow> (py_error + 'e Solution) \<times> 'e state" where
  "Solution_get_copy st self =
     (case copy_repr st self of
        (Inl e, st1) \<Rightarrow> (Inl e, st1)
      | (Inr sol_copy, st1) \<Rightarrow>
          (case copy_fit st1 self (copy_valid self sol_copy) of
             (Inl e, st2) \<Rightarrow> (Inl e, st2)
           | (Inr sol_copy', st2) \<Rightarrow> copy_val_fit st2 self sol_copy'))"

text \<open>\<^verbatim>\<open>Solution.__len__\<close> (line 82).\<close>

definition Solution_len :: "'e state \<Rightarrow> 'e Solution \<Rightarrow> py_error + nat" where
  "Solution_len st self = len (heap st) (repr self)"

subsection \<open>Runs of the program\<close>

text \<open>\<^verbatim>\<open>[Solution(r) for r in rs]\<close>: constructions one after the other, in list order.\<close>

fun construct_all :: "'e state \<Rightarrow> 'e val list \<Rightarrow> 'e Solution list \<times> 'e state" where
  "construct_all st [] = ([], st)"
| "construct_all st (r # rs) =
     (let (s, st1) = Solution_init st r;
          (ss, st2) = construct_all st1 rs
      in (s # ss, st2))"

text \<open>
  \<open>live st s\<close>: in state \<open>st\<close> of a single-threaded run, \<open>s\<close> is an instance that the
  constructor has built. Instances come from the constructor, directly or through
  \<^verbatim>\<open>_get_copy\<close>; they stay when other instances are constructed or copied (also when the
  copy raises); the collaborators of the class assign the attributes \<^verbatim>\<open>valid\<close>, \<^verbatim>\<open>fit\<close>,
  \<^verbatim>\<open>test_fit\<close>, \<^verbatim>\<open>val_fit\<close> and \<^verbatim>\<open>repr_\<close>, and change the store.
  Nobody assigns \<^verbatim>\<open>_id\<close> or \<^verbatim>\<open>Solution.id_\<close>, and nobody deletes an attribute.
\<close>

inductive live :: "'e state \<Rightarrow> 'e Solution \<Rightarrow> bool" where
  constructed: "Solution_init st r = (s, st') \<Longrightarrow> live st' s"
| init_other: "live st s \<Longrightarrow> Solution_init st r = (s', st') \<Longrightarrow> live st' s"
| copied: "live st s \<Longrightarrow> Solution_get_copy st s = (Inr c, st') \<Longrightarrow> live st' c"
| copy_other: "live st s \<Longrightarrow> live st t \<Longrightarrow> Solution_get_copy st t = (res, st') \<Longrightarrow> live st' s"
| set_valid: "live st s \<Longrightarrow> live st (s\<lparr>valid := Some v\<rparr>)"
| set_fit: "live st s \<Longrightarrow> live st (s\<lparr>fit := Some v\<rparr>)"
| set_test_fit: "live st s \<Longrightarrow> live st (s\<lparr>test_fit := Some v\<rparr>)"
| set_val_fit: "live st s \<Longrightarrow> live st (s\<lparr>val_fit := Some v\<rparr>)"
| set_repr: "live st s \<Longrightarrow> live st (s\<lparr>repr := v\<rparr>)"
| store: "live st s \<Longrightarrow> live (st\<lparr>heap := h\<rparr>) s"

section \<open>Properties\<close>

subsection \<open>The store and the primitives\<close>

lemma deref_append: "deref h a = Some ob \<Longrightarrow> deref (h @ xs) a = Some ob"
  by (auto simp: deref_def nth_append split: if_splits)

lemma deref_new: "deref (h @ [ob]) (length h) = Some ob"
  by (simp add: deref_def)

lemma deref_Some_lt: "deref h a = Some ob \<Longrightarrow> a < length h"
  by (simp add: deref_def split: if_splits)

lemma deref_mutate_other: "a \<noteq> b \<Longrightarrow> deref (mutate h b ob) a = deref h a"
  by (simp add: deref_def mutate_def)

lemma type_is_Tensor_iff:
  "type_is_Tensor h v \<longleftrightarrow> (\<exists>a sh d. v = Ref a \<and> deref h a = Some (Tensor sh d))"
  by (auto simp: type_is_Tensor_def split: val.splits option.splits obj.splits)

lemma type_is_list_iff:
  "type_is_list h v \<longleftrightarrow> (\<exists>a vs. v = Ref a \<and> deref h a = Some (PyList vs))"
  by (auto simp: type_is_list_def split: val.splits option.splits obj.splits)

text \<open>\<^verbatim>\<open>clone\<close> and \<^verbatim>\<open>copy\<close> either allocate one cell with the content of the original or raise.\<close>

lemma clone_cases:
  "clone h v = (res, h') \<Longrightarrow>
     (\<exists>a sh d. v = Ref a \<and> deref h a = Some (Tensor sh d) \<and>
        res = Inr (Ref (length h)) \<and> h' = h @ [Tensor sh d])
   \<or> (\<not> type_is_Tensor h v \<and> res = Inl AttributeError \<and> h' = h)"
  by (auto simp: clone_def alloc_def type_is_Tensor_def
      split: val.splits option.splits obj.splits)

lemma copy_cases:
  "copy h v = (res, h') \<Longrightarrow>
     (\<exists>a vs. v = Ref a \<and> deref h a = Some (PyList vs) \<and>
        res = Inr (Ref (length h)) \<and> h' = h @ [PyList vs])
   \<or> (\<not> type_is_list h v \<and> res = Inl AttributeError \<and> h' = h)"
  by (auto simp: copy_def alloc_def type_is_list_def
      split: val.splits option.splits obj.splits)

lemma clone_PNone: "clone h PNone = (Inl AttributeError, h)"
  by (simp add: clone_def)

lemma clone_tensor:
  "deref h a = Some (Tensor sh d) \<Longrightarrow>
   clone h (Ref a) = (Inr (Ref (length h)), h @ [Tensor sh d])"
  by (simp add: clone_def alloc_def)

lemma copy_list:
  "deref h a = Some (PyList vs) \<Longrightarrow>
   copy h (Ref a) = (Inr (Ref (length h)), h @ [PyList vs])"
  by (simp add: copy_def alloc_def)

text \<open>
  Lines 68-71 either raise AttributeError before anything has changed, or append a cell
  with the content of the representation and construct the copy on it.
\<close>

lemma copy_repr_cases:
  "copy_repr st s = (res, st1) \<Longrightarrow>
     (\<exists>a ob. repr s = Ref a \<and> deref (heap st) a = Some ob \<and>
        res = Inr \<lparr>inst_id = class_id st, repr = Ref (length (heap st)),
                   valid = Some PNone, fit = Some PNone, test_fit = None, val_fit = None\<rparr> \<and>
        st1 = \<lparr>class_id = class_id st + 1, heap = heap st @ [ob]\<rparr>)
   \<or> (res = Inl AttributeError \<and> st1 = st \<and>
       \<not> type_is_Tensor (heap st) (repr s) \<and> \<not> type_is_list (heap st) (repr s))"
  unfolding copy_repr_def
  by (auto simp: Solution_init_def type_is_Tensor_iff type_is_list_iff
      split: if_splits prod.splits sum.splits dest!: clone_cases copy_cases)

lemma type_is_Tensor_append: "type_is_Tensor h v \<Longrightarrow> type_is_Tensor (h @ xs) v"
  by (auto simp: type_is_Tensor_iff dest: deref_append)

lemma copy_fit_cases:
  "copy_fit st s c = (res, st2) \<Longrightarrow>
     (fit s = None \<and> res = Inr c \<and> st2 = st)
   \<or> (\<exists>f sh d. fit s = Some (Ref f) \<and> deref (heap st) f = Some (Tensor sh d) \<and>
         res = Inr (c\<lparr>fit := Some (Ref (length (heap st)))\<rparr>) \<and>
         st2 = st\<lparr>heap := heap st @ [Tensor sh d]\<rparr>)
   \<or> (\<exists>v. fit s = Some v \<and> \<not> type_is_Tensor (heap st) v \<and> res = Inl AttributeError \<and> st2 = st)"
  unfolding copy_fit_def hasattr_def
  by (auto split: if_splits prod.splits sum.splits dest!: clone_cases)

lemma copy_val_fit_cases:
  "copy_val_fit st s c = (res, st2) \<Longrightarrow>
     (test_fit s = None \<and> res = Inr c \<and> st2 = st)
   \<or> (test_fit s \<noteq> None \<and> val_fit s = None \<and> res = Inl AttributeError \<and> st2 = st)
   \<or> (\<exists>f sh d. test_fit s \<noteq> None \<and> val_fit s = Some (Ref f) \<and>
         deref (heap st) f = Some (Tensor sh d) \<and>
         res = Inr (c\<lparr>val_fit := Some (Ref (length (heap st)))\<rparr>) \<and>
         st2 = st\<lparr>heap := heap st @ [Tensor sh d]\<rparr>)
   \<or> (\<exists>v. test_fit s \<noteq> None \<and> val_fit s = Some v \<and> \<not> type_is_Tensor (heap st) v \<and>
         res = Inl AttributeError \<and> st2 = st)"
  unfolding copy_val_fit_def hasattr_def
  by (auto split: if_splits prod.splits sum.splits option.splits dest!: clone_cases)

lemma copy_valid_fields:
  "inst_id (copy_valid s c) = inst_id c" "repr (copy_valid s c) = repr c"
  "fit (copy_valid s c) = fit c" "valid c \<noteq> None \<Longrightarrow> valid (copy_valid s c) \<noteq> None"
  "test_fit (copy_valid s c) = test_fit c" "val_fit (copy_valid s c) = val_fit c"
  by (auto simp: copy_valid_def hasattr_def)

text \<open>The three stages of a copy that returns.\<close>

lemma get_copy_InrD:
  assumes "Solution_get_copy st s = (Inr c, st')"
  obtains c0 st1 c1 st2 where
    "copy_repr st s = (Inr c0, st1)"
    "copy_fit st1 s (copy_valid s c0) = (Inr c1, st2)"
    "copy_val_fit st2 s c1 = (Inr c, st')"
  using assms unfolding Solution_get_copy_def
  by (auto split: prod.splits sum.splits)

lemma get_copy_counter:
  "Solution_get_copy st s = (res, st') \<Longrightarrow> class_id st \<le> class_id st'"
  unfolding Solution_get_copy_def
  by (auto split: prod.splits sum.splits dest!: copy_repr_cases copy_fit_cases copy_val_fit_cases)

lemma get_copy_Inr_id:
  assumes "Solution_get_copy st s = (Inr c, st')"
  shows "inst_id c = class_id st \<and> class_id st' = class_id st + 1"
  using assms
  by (elim get_copy_InrD) (auto dest!: copy_repr_cases copy_fit_cases copy_val_fit_cases simp: copy_valid_fields)

lemma get_copy_Inr_attrs:
  assumes "Solution_get_copy st s = (Inr c, st')"
  shows "valid c \<noteq> None \<and> fit c \<noteq> None"
  using assms
  by (elim get_copy_InrD) (auto dest!: copy_repr_cases copy_fit_cases copy_val_fit_cases simp: copy_valid_def hasattr_def)

lemma get_copy_Inr_repr:
  assumes "Solution_get_copy st s = (Inr c, st')"
  shows "\<exists>a ob hs. repr s = Ref a \<and> deref (heap st) a = Some ob \<and>
           repr c = Ref (length (heap st)) \<and> heap st' = heap st @ ob # hs"
  using assms
  by (elim get_copy_InrD) (auto dest!: copy_repr_cases copy_fit_cases copy_val_fit_cases simp: copy_valid_fields)

lemma get_copy_Inr_fit:
  assumes "Solution_get_copy st s = (Inr c, st')"
      and "fit s = Some (Ref f)" and "deref (heap st) f = Some (Tensor sh d)"
  shows "\<exists>ob hs. fit c = Some (Ref (Suc (length (heap st)))) \<and>
           heap st' = heap st @ ob # Tensor sh d # hs"
proof -
  from assms(1) obtain c0 st1 c1 st2 where
    cr: "copy_repr st s = (Inr c0, st1)" and
    cf: "copy_fit st1 s (copy_valid s c0) = (Inr c1, st2)" and
    cv: "copy_val_fit st2 s c1 = (Inr c, st')"
    by (rule get_copy_InrD)
  from copy_repr_cases [OF cr] obtain ob where
    st1: "heap st1 = heap st @ [ob]"
    by auto
  from assms(3) st1 have f1: "deref (heap st1) f = Some (Tensor sh d)"
    by (simp add: deref_append)
  from copy_fit_cases [OF cf] assms(2) f1 have
    c1: "fit c1 = Some (Ref (length (heap st1)))" and
    st2: "heap st2 = heap st1 @ [Tensor sh d]"
    by auto
  from copy_val_fit_cases [OF cv] obtain hs where
    c: "fit c = fit c1" and st': "heap st' = heap st2 @ hs"
    by auto
  from c c1 st1 st2 st' show ?thesis
    by simp
qed

lemma get_copy_returns:
  assumes "type_is_Tensor (heap st) (repr s) \<or> type_is_list (heap st) (repr s)"
      and "\<forall>f. fit s = Some f \<longrightarrow> type_is_Tensor (heap st) f"
      and "test_fit s \<noteq> None \<longrightarrow> (\<exists>v. val_fit s = Some v \<and> type_is_Tensor (heap st) v)"
  shows "\<exists>c st'. Solution_get_copy st s = (Inr c, st')"
proof -
  obtain r0 st1 where cr: "copy_repr st s = (r0, st1)" by (cases "copy_repr st s")
  from copy_repr_cases [OF cr] assms(1) obtain c0 ob where
    r0: "r0 = Inr c0" and st1: "heap st1 = heap st @ [ob]"
    by auto
  obtain r1 st2 where cf: "copy_fit st1 s (copy_valid s c0) = (r1, st2)"
    by (cases "copy_fit st1 s (copy_valid s c0)")
  from copy_fit_cases [OF cf] assms(2) st1 obtain c1 hs where
    r1: "r1 = Inr c1" and st2: "heap st2 = heap st @ hs"
    by (auto dest: type_is_Tensor_append)
  obtain r2 st3 where cv: "copy_val_fit st2 s c1 = (r2, st3)"
    by (cases "copy_val_fit st2 s c1")
  from copy_val_fit_cases [OF cv] assms(3) st2 obtain c2 where r2: "r2 = Inr c2"
    by (auto dest: type_is_Tensor_append)
  from cr cf cv r0 r1 r2 show ?thesis
    by (simp add: Solution_get_copy_def)
qed

subsection \<open>Construction\<close>

text \<open>
  Claim C6. For every representation passed to the constructor, the new Solution has
  \<^verbatim>\<open>valid\<close> and \<^verbatim>\<open>fit\<close> unset (Python's \<^verbatim>\<open>None\<close>) and holds the representation it was
  given; the construction checks and evaluates nothing, and leaves the store as it was.
\<close>

theorem init_valid_fit_unset:
  "valid (fst (Solution_init st r)) = Some PNone \<and>
   fit (fst (Solution_init st r)) = Some PNone \<and>
   repr (fst (Solution_init st r)) = r \<and>
   heap (snd (Solution_init st r)) = heap st"
  by (simp add: Solution_init_def)

lemma construct_all_Cons:
  "construct_all st (r # rs) =
     (fst (Solution_init st r) # fst (construct_all (snd (Solution_init st r)) rs),
      snd (construct_all (snd (Solution_init st r)) rs))"
  by (simp split: prod.splits)

lemma construct_all_length: "length (fst (construct_all st rs)) = length rs"
  by (induction rs arbitrary: st) (simp_all add: construct_all_Cons del: construct_all.simps(2))

text \<open>No construction of a run hands out an id below the counter it started from.\<close>

lemma construct_all_lower:
  "s \<in> set (fst (construct_all st rs)) \<Longrightarrow> class_id st \<le> inst_id s"
proof (induction rs arbitrary: st)
  case Nil
  then show ?case by simp
next
  case (Cons r rs)
  let ?st1 = "st\<lparr>class_id := class_id st + 1\<rparr>"
  from Cons.prems have "inst_id s = class_id st \<or> s \<in> set (fst (construct_all ?st1 rs))"
    by (auto simp: Solution_init_def split: prod.splits)
  then show ?case
  proof
    assume "inst_id s = class_id st"
    then show ?thesis by simp
  next
    assume "s \<in> set (fst (construct_all ?st1 rs))"
    from Cons.IH [OF this] show ?thesis by simp
  qed
qed

text \<open>
  Claim C3. N constructions one after the other, from any value of the counter, give N
  Solutions whose ids are strictly increasing in construction order, hence pairwise
  distinct.
\<close>

theorem construct_all_ids_increasing:
  "length (fst (construct_all st rs)) = length rs \<and>
   sorted_wrt (<) (map inst_id (fst (construct_all st rs))) \<and>
   distinct (map inst_id (fst (construct_all st rs)))"
proof -
  have sw: "sorted_wrt (<) (map inst_id (fst (construct_all st rs)))"
  proof (induction rs arbitrary: st)
    case Nil
    then show ?case by simp
  next
    case (Cons r rs)
    let ?st1 = "st\<lparr>class_id := class_id st + 1\<rparr>"
    have "\<forall>s \<in> set (fst (construct_all ?st1 rs)). class_id st < inst_id s"
      using construct_all_lower [of _ ?st1 rs] by fastforce
    with Cons.IH [of ?st1] show ?case
      by (auto simp: Solution_init_def split: prod.splits)
  qed
  then have "distinct (map inst_id (fst (construct_all st rs)))"
    by (simp add: strict_sorted_iff)
  with sw show ?thesis by (simp add: construct_all_length)
qed

subsection \<open>Copying a Solution that was never evaluated\<close>

text \<open>
  The constructor sets \<^verbatim>\<open>fit\<close> to \<^verbatim>\<open>None\<close>, so \<^verbatim>\<open>hasattr(self, 'fit')\<close> holds and line 75
  calls \<^verbatim>\<open>None.clone()\<close>: the copy of a Solution as the constructor leaves it raises
  AttributeError, whatever its representation.
\<close>

lemma fresh_copy_raises:
  "fst (Solution_get_copy (snd (Solution_init st r)) (fst (Solution_init st r)))
   = Inl AttributeError"
proof -
  obtain s st' where init: "Solution_init st r = (s, st')"
    by (cases "Solution_init st r")
  then have fit: "fit s = Some PNone"
    by (auto simp: Solution_init_def)
  obtain res st1 where cr: "copy_repr st' s = (res, st1)"
    by (cases "copy_repr st' s")
  show ?thesis
  proof (cases res)
    case (Inl e)
    with cr have "e = AttributeError"
      by (auto dest: copy_repr_cases)
    with Inl cr init show ?thesis
      by (simp add: Solution_get_copy_def)
  next
    case (Inr c)
    have "copy_fit st1 s (copy_valid s c) = (Inl AttributeError, st1)"
      by (simp add: copy_fit_def hasattr_def fit clone_PNone)
    with Inr cr init show ?thesis
      by (simp add: Solution_get_copy_def)
  qed
qed

text \<open>
  Claim C1 says that copying a Solution whose fitness was never set does not raise and
  gives a copy whose fitness is unset. The code does not do so: for
  \<^verbatim>\<open>Solution([1, 2, 3])._get_copy()\<close> the list is copied, the copy is constructed (the
  counter goes from 1 to 2), and line 75 raises AttributeError.
\<close>

theorem fresh_list_copy_raises:
  "Solution_get_copy
     (snd (Solution_init \<lparr>class_id = 0, heap = [PyList [PInt 1, PInt 2, PInt 3]]\<rparr> (Ref 0)))
     (fst (Solution_init \<lparr>class_id = 0, heap = [PyList [PInt 1, PInt 2, PInt 3]]\<rparr> (Ref 0)))
   = (Inl AttributeError,
      \<lparr>class_id = 2,
       heap = [PyList [PInt 1, PInt 2, PInt 3], PyList [PInt 1, PInt 2, PInt 3 :: int val]]\<rparr>)"
  by (simp add: Solution_get_copy_def copy_repr_def copy_valid_def copy_fit_def Solution_init_def
      type_is_Tensor_def deref_def copy_def clone_def alloc_def hasattr_def)

subsection \<open>The validation fitness\<close>

text \<open>
  Claim C2 says that the validation fitness is cloned onto the copy under the same
  attribute name when present and skipped when absent. The code tests \<^verbatim>\<open>test_fit\<close> and
  reads and writes \<^verbatim>\<open>val_fit\<close>. On a Solution with a tensor representation, a tensor
  fitness and \<^verbatim>\<open>test_fit\<close> set to a tensor (no \<^verbatim>\<open>val_fit\<close>), the copy raises AttributeError
  at line 77; on the same Solution with \<^verbatim>\<open>val_fit\<close> set instead (no \<^verbatim>\<open>test_fit\<close>), the copy
  returns without a \<^verbatim>\<open>val_fit\<close>.
\<close>

theorem val_fit_name_mismatch:
  "Solution_get_copy
     \<lparr>class_id = 1, heap = [Tensor [2] [10, 20], Tensor [] [7], Tensor [] [9 :: int]]\<rparr>
     \<lparr>inst_id = 0, repr = Ref 0, valid = Some (PBool True), fit = Some (Ref 1),
      test_fit = Some (Ref 2), val_fit = None\<rparr>
   = (Inl AttributeError,
      \<lparr>class_id = 2, heap = [Tensor [2] [10, 20], Tensor [] [7], Tensor [] [9],
                             Tensor [2] [10, 20], Tensor [] [7]]\<rparr>)
   \<and>
   Solution_get_copy
     \<lparr>class_id = 1, heap = [Tensor [2] [10, 20], Tensor [] [7], Tensor [] [9 :: int]]\<rparr>
     \<lparr>inst_id = 0, repr = Ref 0, valid = Some (PBool True), fit = Some (Ref 1),
      test_fit = None, val_fit = Some (Ref 2)\<rparr>
   = (Inr \<lparr>inst_id = 1, repr = Ref 3, valid = Some (PBool True), fit = Some (Ref 4),
           test_fit = None, val_fit = None\<rparr>,
      \<lparr>class_id = 2, heap = [Tensor [2] [10, 20], Tensor [] [7], Tensor [] [9],
                             Tensor [2] [10, 20], Tensor [] [7]]\<rparr>)"
  by (simp add: Solution_get_copy_def copy_repr_def copy_valid_def copy_fit_def copy_val_fit_def
      Solution_init_def type_is_Tensor_def deref_def copy_def clone_def alloc_def hasattr_def)

subsection \<open>Instances of a run\<close>

text \<open>
  Every instance of a run has an id below the counter, and has the attributes \<^verbatim>\<open>valid\<close>
  and \<^verbatim>\<open>fit\<close>: the constructor establishes both, and no step of a run breaks them.
\<close>

lemma live_inv:
  "live st s \<Longrightarrow> inst_id s < class_id st \<and> valid s \<noteq> None \<and> fit s \<noteq> None"
proof (induction rule: live.induct)
  case (constructed st r s st')
  then show ?case by (auto simp: Solution_init_def)
next
  case (init_other st s r s' st')
  then show ?case by (auto simp: Solution_init_def)
next
  case (copied st s c st')
  from get_copy_Inr_id [OF copied.hyps(2)] get_copy_Inr_attrs [OF copied.hyps(2)]
  show ?case by simp
next
  case (copy_other st s t res st')
  from get_copy_counter [OF copy_other.hyps(3)] copy_other.IH(1)
  show ?case by simp
qed simp_all

text \<open>
  Claim C10. Every constructed Solution has the attributes \<^verbatim>\<open>valid\<close> and \<^verbatim>\<open>fit\<close> (the
  constructor initialises both to \<^verbatim>\<open>None\<close>, and every operation keeps them), so the \<^verbatim>\<open>hasattr\<close> guards of lines 72 and 74 hold for every
  Solution, a freshly constructed one included, and line 73 always runs.
\<close>

theorem live_has_valid_fit:
  "live st s \<Longrightarrow>
   hasattr (valid s) \<and> hasattr (fit s) \<and> copy_valid s c = c\<lparr>valid := valid s\<rparr>"
  using live_inv [of st s] by (simp add: hasattr_def copy_valid_def)

theorem live_has_valid_fit_witness:
  "live (snd (Solution_init \<lparr>class_id = 0, heap = [PyList [PInt 1, PInt 2, PInt 3 :: int val]]\<rparr> (Ref 0)))
        (fst (Solution_init \<lparr>class_id = 0, heap = [PyList [PInt 1, PInt 2, PInt 3 :: int val]]\<rparr> (Ref 0))) \<and>
   hasattr (valid (fst (Solution_init \<lparr>class_id = 0, heap = [PyList [PInt 1, PInt 2, PInt 3 :: int val]]\<rparr> (Ref 0)))) \<and>
   hasattr (fit (fst (Solution_init \<lparr>class_id = 0, heap = [PyList [PInt 1, PInt 2, PInt 3 :: int val]]\<rparr> (Ref 0))))"
proof -
  let ?i = "Solution_init \<lparr>class_id = 0, heap = [PyList [PInt 1, PInt 2, PInt 3 :: int val]]\<rparr> (Ref 0)"
  have l: "live (snd ?i) (fst ?i)"
    by (rule live.constructed [of "\<lparr>class_id = 0, heap = [PyList [PInt 1, PInt 2, PInt 3 :: int val]]\<rparr>" "Ref 0"]) simp
  from live_has_valid_fit [OF l] l show ?thesis by simp
qed



subsection \<open>Independence of a copy\<close>

lemma get_copy_repr_cells:
  assumes "Solution_get_copy st s = (Inr c, st')" and "repr s = Ref a"
      and "deref (heap st) a = Some ob"
  shows "repr c = Ref (length (heap st)) \<and> a < length (heap st) \<and> length (heap st) < length (heap st') \<and>
         deref (heap st') a = Some ob \<and> deref (heap st') (length (heap st)) = Some ob"
proof -
  from get_copy_Inr_repr [OF assms(1)] assms(2,3) obtain hs where
    c: "repr c = Ref (length (heap st))" and h: "heap st' = heap st @ ob # hs"
    by auto
  from assms(3) have lt: "a < length (heap st)" by (rule deref_Some_lt)
  from assms(3) h have "deref (heap st') a = Some ob" by (simp add: deref_append)
  moreover from h have "deref (heap st') (length (heap st)) = Some ob"
    by (simp add: deref_def)
  ultimately show ?thesis using c lt h by simp
qed

text \<open>
  Two distinct cells are independent: a mutation of one is seen at that cell and leaves
  the other as it was.
\<close>

lemma independent_cells:
  assumes "a \<noteq> b" and "deref h a = Some x" and "deref h b = Some y"
  shows "deref (mutate h b ob) a = Some x \<and> deref (mutate h a ob) b = Some y \<and>
         deref (mutate h b ob) b = Some ob \<and> deref (mutate h a ob) a = Some ob"
  using assms by (auto simp: deref_def mutate_def split: if_splits)

lemma copy_repr_cell:
  assumes "repr s = Ref a" and "deref (heap st) a = Some ob"
      and "\<forall>f. fit s = Some f \<longrightarrow> type_is_Tensor (heap st) f"
      and "test_fit s \<noteq> None \<longrightarrow> (\<exists>v. val_fit s = Some v \<and> type_is_Tensor (heap st) v)"
  shows "\<exists>c st' b. Solution_get_copy st s = (Inr c, st') \<and> repr c = Ref b \<and>
           b \<noteq> a \<and> length (heap st) \<le> b \<and>
           deref (heap st') a = Some ob \<and> deref (heap st') b = Some ob \<and>
           (\<forall>ob'. deref (mutate (heap st') b ob') a = Some ob \<and>
                  deref (mutate (heap st') b ob') b = Some ob') \<and>
           (\<forall>ob'. deref (mutate (heap st') a ob') b = Some ob \<and>
                  deref (mutate (heap st') a ob') a = Some ob')"
proof -
  from assms(1,2) have "type_is_Tensor (heap st) (repr s) \<or> type_is_list (heap st) (repr s)"
    by (cases ob) (simp_all add: type_is_Tensor_iff type_is_list_iff)
  from get_copy_returns [OF this assms(3,4)] obtain c st' where
    gc: "Solution_get_copy st s = (Inr c, st')"
    by blast
  let ?b = "length (heap st)"
  from get_copy_repr_cells [OF gc assms(1,2)] have
    c: "repr c = Ref ?b" and ne: "a \<noteq> ?b" and
    da: "deref (heap st') a = Some ob" and db: "deref (heap st') ?b = Some ob"
    by simp_all
  from independent_cells [OF ne da db] gc c ne da db show ?thesis
    by blast
qed

text \<open>
  Claim C5. Let \<open>s\<close> be a Solution whose fitness, when present, is a tensor (and whose
  \<^verbatim>\<open>val_fit\<close> is a tensor when \<^verbatim>\<open>test_fit\<close> is present), so that the copy returns. If its
  representation is a tensor, the representation of the copy is a newly allocated tensor
  with the same shape and elements, and a mutation of either tensor leaves the other
  unchanged. If its representation is a list, the representation of the copy is a newly
  allocated list holding the very same element values (the same references: the elements
  are not cloned), and a mutation of either container leaves the other unchanged.
\<close>

theorem copy_repr_independent:
  assumes "repr s = Ref a"
      and "\<forall>f. fit s = Some f \<longrightarrow> type_is_Tensor (heap st) f"
      and "test_fit s \<noteq> None \<longrightarrow> (\<exists>v. val_fit s = Some v \<and> type_is_Tensor (heap st) v)"
  shows "(deref (heap st) a = Some (Tensor sh d) \<longrightarrow>
          (\<exists>c st' b. Solution_get_copy st s = (Inr c, st') \<and> repr c = Ref b \<and>
             b \<noteq> a \<and> length (heap st) \<le> b \<and>
             deref (heap st') a = Some (Tensor sh d) \<and>
             deref (heap st') b = Some (Tensor sh d) \<and>
             (\<forall>ob'. deref (mutate (heap st') b ob') a = Some (Tensor sh d) \<and>
                    deref (mutate (heap st') b ob') b = Some ob') \<and>
             (\<forall>ob'. deref (mutate (heap st') a ob') b = Some (Tensor sh d) \<and>
                    deref (mutate (heap st') a ob') a = Some ob')))
       \<and> (deref (heap st) a = Some (PyList vs) \<longrightarrow>
          (\<exists>c st' b. Solution_get_copy st s = (Inr c, st') \<and> repr c = Ref b \<and>
             b \<noteq> a \<and> length (heap st) \<le> b \<and>
             deref (heap st') a = Some (PyList vs) \<and>
             deref (heap st') b = Some (PyList vs) \<and>
             (\<forall>ob'. deref (mutate (heap st') b ob') a = Some (PyList vs) \<and>
                    deref (mutate (heap st') b ob') b = Some ob') \<and>
             (\<forall>ob'. deref (mutate (heap st') a ob') b = Some (PyList vs) \<and>
                    deref (mutate (heap st') a ob') a = Some ob')))"
  using copy_repr_cell [OF assms(1) _ assms(2,3), of "Tensor sh d"]
        copy_repr_cell [OF assms(1) _ assms(2,3), of "PyList vs"]
  by blast

theorem copy_repr_independent_witness:
  "(\<exists>c st' b.
      Solution_get_copy \<lparr>class_id = 1, heap = [Tensor [2] [10, 20], Tensor [] [7 :: int]]\<rparr>
        \<lparr>inst_id = 0, repr = Ref 0, valid = Some (PBool True), fit = Some (Ref 1),
         test_fit = None, val_fit = None\<rparr> = (Inr c, st') \<and>
      repr c = Ref b \<and> b \<noteq> 0 \<and> 2 \<le> b \<and>
      deref (heap st') 0 = Some (Tensor [2] [10, 20]) \<and>
      deref (heap st') b = Some (Tensor [2] [10, 20]) \<and>
      (\<forall>ob'. deref (mutate (heap st') b ob') 0 = Some (Tensor [2] [10, 20]) \<and>
             deref (mutate (heap st') b ob') b = Some ob') \<and>
      (\<forall>ob'. deref (mutate (heap st') 0 ob') b = Some (Tensor [2] [10, 20]) \<and>
             deref (mutate (heap st') 0 ob') 0 = Some ob'))
   \<and>
   (\<exists>c st' b.
      Solution_get_copy
        \<lparr>class_id = 1, heap = [PyList [PInt 4, Ref 1], PyList [], Tensor [] [7 :: int]]\<rparr>
        \<lparr>inst_id = 0, repr = Ref 0, valid = Some (PBool True), fit = Some (Ref 2),
         test_fit = None, val_fit = None\<rparr> = (Inr c, st') \<and>
      repr c = Ref b \<and> b \<noteq> 0 \<and> 3 \<le> b \<and>
      deref (heap st') 0 = Some (PyList [PInt 4, Ref 1]) \<and>
      deref (heap st') b = Some (PyList [PInt 4, Ref 1]) \<and>
      (\<forall>ob'. deref (mutate (heap st') b ob') 0 = Some (PyList [PInt 4, Ref 1]) \<and>
             deref (mutate (heap st') b ob') b = Some ob') \<and>
      (\<forall>ob'. deref (mutate (heap st') 0 ob') b = Some (PyList [PInt 4, Ref 1]) \<and>
             deref (mutate (heap st') 0 ob') 0 = Some ob'))"
proof -
  let ?st = "\<lparr>class_id = 1, heap = [Tensor [2] [10, 20], Tensor [] [7 :: int]]\<rparr>"
  let ?s = "\<lparr>inst_id = 0, repr = Ref 0, valid = Some (PBool True), fit = Some (Ref 1),
         test_fit = None, val_fit = None\<rparr> :: int Solution"
  have r: "repr ?s = Ref 0" by simp
  have f: "\<forall>f. fit ?s = Some f \<longrightarrow> type_is_Tensor (heap ?st) f"
    by (simp add: type_is_Tensor_def deref_def)
  have t: "test_fit ?s \<noteq> None \<longrightarrow> (\<exists>v. val_fit ?s = Some v \<and> type_is_Tensor (heap ?st) v)"
    by simp
  have d: "deref (heap ?st) 0 = Some (Tensor [2] [10, 20])"
    by (simp add: deref_def)
  from copy_repr_independent [OF r f t, of "[2]" "[10, 20]" "[]"] d have tensor_case:
    "\<exists>c st' b. Solution_get_copy ?st ?s = (Inr c, st') \<and>
      repr c = Ref b \<and> b \<noteq> 0 \<and> 2 \<le> b \<and>
      deref (heap st') 0 = Some (Tensor [2] [10, 20]) \<and>
      deref (heap st') b = Some (Tensor [2] [10, 20]) \<and>
      (\<forall>ob'. deref (mutate (heap st') b ob') 0 = Some (Tensor [2] [10, 20]) \<and>
             deref (mutate (heap st') b ob') b = Some ob') \<and>
      (\<forall>ob'. deref (mutate (heap st') 0 ob') b = Some (Tensor [2] [10, 20]) \<and>
             deref (mutate (heap st') 0 ob') 0 = Some ob')"
    by (simp add: eval_nat_numeral)
  let ?lst = "\<lparr>class_id = 1, heap = [PyList [PInt 4, Ref 1], PyList [], Tensor [] [7 :: int]]\<rparr>"
  let ?ls = "\<lparr>inst_id = 0, repr = Ref 0, valid = Some (PBool True), fit = Some (Ref 2),
         test_fit = None, val_fit = None\<rparr> :: int Solution"
  have lr: "repr ?ls = Ref 0" by simp
  have lf: "\<forall>f. fit ?ls = Some f \<longrightarrow> type_is_Tensor (heap ?lst) f"
    by (simp add: type_is_Tensor_def deref_def)
  have lt: "test_fit ?ls \<noteq> None \<longrightarrow> (\<exists>v. val_fit ?ls = Some v \<and> type_is_Tensor (heap ?lst) v)"
    by simp
  have ld: "deref (heap ?lst) 0 = Some (PyList [PInt 4, Ref 1])"
    by (simp add: deref_def)
  from copy_repr_independent [OF lr lf lt, of "[]" "[]" "[PInt 4, Ref 1]"] ld have list_case:
    "\<exists>c st' b. Solution_get_copy ?lst ?ls = (Inr c, st') \<and>
      repr c = Ref b \<and> b \<noteq> 0 \<and> 3 \<le> b \<and>
      deref (heap st') 0 = Some (PyList [PInt 4, Ref 1]) \<and>
      deref (heap st') b = Some (PyList [PInt 4, Ref 1]) \<and>
      (\<forall>ob'. deref (mutate (heap st') b ob') 0 = Some (PyList [PInt 4, Ref 1]) \<and>
             deref (mutate (heap st') b ob') b = Some ob') \<and>
      (\<forall>ob'. deref (mutate (heap st') 0 ob') b = Some (PyList [PInt 4, Ref 1]) \<and>
             deref (mutate (heap st') 0 ob') 0 = Some ob')"
    by (simp add: eval_nat_numeral)
  from tensor_case list_case show ?thesis by (rule conjI)
qed

text \<open>
  Claim C8. Let \<open>s\<close> be a Solution whose fitness is a tensor, with a list or tensor
  representation (and whose \<^verbatim>\<open>val_fit\<close> is a tensor when \<^verbatim>\<open>test_fit\<close> is present). The copy
  returns, and its fitness is a newly allocated tensor with the same shape and elements: a
  mutation of the fitness of the copy leaves the fitness of the original unchanged, and
  the other way round.
\<close>

theorem copy_fit_independent:
  assumes "fit s = Some (Ref f)" and "deref (heap st) f = Some (Tensor sh d)"
      and "type_is_Tensor (heap st) (repr s) \<or> type_is_list (heap st) (repr s)"
      and "test_fit s \<noteq> None \<longrightarrow> (\<exists>v. val_fit s = Some v \<and> type_is_Tensor (heap st) v)"
  shows "\<exists>c st' g. Solution_get_copy st s = (Inr c, st') \<and> fit c = Some (Ref g) \<and>
           g \<noteq> f \<and> length (heap st) \<le> g \<and>
           deref (heap st') f = Some (Tensor sh d) \<and> deref (heap st') g = Some (Tensor sh d) \<and>
           (\<forall>ob. deref (mutate (heap st') g ob) f = Some (Tensor sh d) \<and>
                 deref (mutate (heap st') g ob) g = Some ob) \<and>
           (\<forall>ob. deref (mutate (heap st') f ob) g = Some (Tensor sh d) \<and>
                 deref (mutate (heap st') f ob) f = Some ob)"
proof -
  from assms(1,2) have "\<forall>v. fit s = Some v \<longrightarrow> type_is_Tensor (heap st) v"
    by (simp add: type_is_Tensor_iff)
  from get_copy_returns [OF assms(3) this assms(4)] obtain c st' where
    gc: "Solution_get_copy st s = (Inr c, st')"
    by blast
  let ?g = "Suc (length (heap st))"
  from get_copy_Inr_fit [OF gc assms(1,2)] obtain ob hs where
    c: "fit c = Some (Ref ?g)" and h: "heap st' = heap st @ ob # Tensor sh d # hs"
    by blast
  from assms(2) have "f < length (heap st)" by (rule deref_Some_lt)
  then have ne: "f \<noteq> ?g" by simp
  have fresh: "length (heap st) \<le> ?g" by simp
  from assms(2) h have df: "deref (heap st') f = Some (Tensor sh d)"
    by (simp add: deref_append)
  from h have dg: "deref (heap st') ?g = Some (Tensor sh d)"
    by (simp add: deref_def nth_append)
  from independent_cells [OF ne df dg] gc c ne fresh df dg show ?thesis
    by blast
qed

theorem copy_fit_independent_witness:
  "\<exists>c st' g.
      Solution_get_copy \<lparr>class_id = 1, heap = [Tensor [2] [10, 20], Tensor [] [7 :: int]]\<rparr>
        \<lparr>inst_id = 0, repr = Ref 0, valid = Some (PBool True), fit = Some (Ref 1),
         test_fit = None, val_fit = None\<rparr> = (Inr c, st') \<and>
      fit c = Some (Ref g) \<and> g \<noteq> 1 \<and> 2 \<le> g \<and>
      deref (heap st') 1 = Some (Tensor [] [7]) \<and>
      deref (heap st') g = Some (Tensor [] [7]) \<and>
      (\<forall>ob. deref (mutate (heap st') g ob) 1 = Some (Tensor [] [7]) \<and>
            deref (mutate (heap st') g ob) g = Some ob) \<and>
      (\<forall>ob. deref (mutate (heap st') 1 ob) g = Some (Tensor [] [7]) \<and>
            deref (mutate (heap st') 1 ob) 1 = Some ob)"
proof -
  let ?st = "\<lparr>class_id = 1, heap = [Tensor [2] [10, 20], Tensor [] [7 :: int]]\<rparr>"
  let ?s = "\<lparr>inst_id = 0, repr = Ref 0, valid = Some (PBool True), fit = Some (Ref 1),
         test_fit = None, val_fit = None\<rparr> :: int Solution"
  have f: "fit ?s = Some (Ref 1)" by simp
  have d: "deref (heap ?st) 1 = Some (Tensor [] [7])"
    by (simp add: deref_def)
  have r: "type_is_Tensor (heap ?st) (repr ?s) \<or> type_is_list (heap ?st) (repr ?s)"
    by (simp add: type_is_Tensor_def deref_def)
  have t: "test_fit ?s \<noteq> None \<longrightarrow> (\<exists>v. val_fit ?s = Some v \<and> type_is_Tensor (heap ?st) v)"
    by simp
  from copy_fit_independent [OF f d r t] show ?thesis
    by (simp add: eval_nat_numeral)
qed

subsection \<open>Length\<close>

text \<open>
  Claim C7. The length of a Solution constructed on a list is the length of the list;
  the length of a Solution constructed on a tensor with at least one dimension is the size
  of its first dimension. (A tensor without dimensions has no first dimension, and
  \<^verbatim>\<open>len\<close> raises TypeError on it.)
\<close>

theorem len_correct:
  "(deref (heap st) a = Some (PyList vs) \<longrightarrow>
      Solution_len (snd (Solution_init st (Ref a))) (fst (Solution_init st (Ref a)))
      = Inr (length vs)) \<and>
   (deref (heap st) a = Some (Tensor (n # sh) d) \<longrightarrow>
      Solution_len (snd (Solution_init st (Ref a))) (fst (Solution_init st (Ref a)))
      = Inr n)"
  by (simp add: Solution_len_def Solution_init_def len_def)

text \<open>A list of five elements and a tensor of shape \<open>[5]\<close> both have length 5.\<close>

theorem len_correct_witness:
  "Solution_len
     (snd (Solution_init \<lparr>class_id = 0, heap = [PyList [PInt 1, PInt 2, PInt 3, PInt 4, PInt 5],
                                                Tensor [5] [1, 2, 3, 4, 5 :: int]]\<rparr> (Ref 0)))
     (fst (Solution_init \<lparr>class_id = 0, heap = [PyList [PInt 1, PInt 2, PInt 3, PInt 4, PInt 5],
                                                Tensor [5] [1, 2, 3, 4, 5 :: int]]\<rparr> (Ref 0)))
   = Inr 5 \<and>
   Solution_len
     (snd (Solution_init \<lparr>class_id = 0, heap = [PyList [PInt 1, PInt 2, PInt 3, PInt 4, PInt 5],
                                                Tensor [5] [1, 2, 3, 4, 5 :: int]]\<rparr> (Ref 1)))
     (fst (Solution_init \<lparr>class_id = 0, heap = [PyList [PInt 1, PInt 2, PInt 3, PInt 4, PInt 5],
                                                Tensor [5] [1, 2, 3, 4, 5 :: int]]\<rparr> (Ref 1)))
   = Inr 5"
proof -
  let ?st = "\<lparr>class_id = 0, heap = [PyList [PInt 1, PInt 2, PInt 3, PInt 4, PInt 5],
                                     Tensor [5] [1, 2, 3, 4, 5 :: int]]\<rparr>"
  have l: "deref (heap ?st) 0 = Some (PyList [PInt 1, PInt 2, PInt 3, PInt 4, PInt 5])"
    by (simp add: deref_def)
  have t: "deref (heap ?st) 1 = Some (Tensor (5 # []) [1, 2, 3, 4, 5])"
    by (simp add: deref_def)
  from len_correct [of ?st 0 "[PInt 1, PInt 2, PInt 3, PInt 4, PInt 5]" 0 "[]" "[]"] l
       len_correct [of ?st 1 "[]" 5 "[]" "[1, 2, 3, 4, 5]"] t
  show ?thesis by simp
qed

text \<open>
  Claim C9 says that the length of a Solution whose representation supports no length
  query fails with an UnsupportedRepresentationError. Line 82 is \<^verbatim>\<open>len(self.repr_)\<close> and
  nothing else: on \<^verbatim>\<open>Solution(5)\<close> it raises Python's TypeError.
\<close>

theorem len_int_TypeError:
  "Solution_len (snd (Solution_init init_state (PInt 5)))
     (fst (Solution_init (init_state :: int state) (PInt 5))) = Inl TypeError \<and>
   Solution_len (snd (Solution_init init_state (PInt 5)))
     (fst (Solution_init (init_state :: int state) (PInt 5))) \<noteq> Inl UnsupportedRepresentationError"
  by (simp add: Solution_len_def Solution_init_def len_def init_state_def)

text \<open>
  Claim C9, amended. For every Solution whose representation is neither a list nor a
  tensor with at least one dimension (so \<^verbatim>\<open>None\<close>, a \<^verbatim>\<open>bool\<close>, an \<^verbatim>\<open>int\<close>, a \<^verbatim>\<open>float\<close> or a
  tensor without dimensions), the length operation fails with TypeError.
\<close>

theorem len_unsupported_TypeError:
  assumes "\<not> type_is_list (heap st) (repr s)"
      and "\<forall>a n sh d. repr s = Ref a \<longrightarrow> deref (heap st) a \<noteq> Some (Tensor (n # sh) d)"
  shows "Solution_len st s = Inl TypeError"
  using assms
  by (auto simp: Solution_len_def len_def type_is_list_def
      split: val.splits option.splits obj.splits list.splits)

theorem len_unsupported_TypeError_witness:
  "\<not> type_is_list [Tensor [] [7 :: int]] (Ref 0) \<and>
   Solution_len \<lparr>class_id = 1, heap = [Tensor [] [7 :: int]]\<rparr>
     \<lparr>inst_id = 0, repr = Ref 0, valid = Some PNone, fit = Some PNone,
      test_fit = None, val_fit = None\<rparr> = Inl TypeError"
proof -
  let ?st = "\<lparr>class_id = 1, heap = [Tensor [] [7 :: int]]\<rparr>"
  let ?s = "\<lparr>inst_id = 0, repr = Ref 0, valid = Some PNone, fit = Some PNone,
      test_fit = None, val_fit = None\<rparr> :: int Solution"
  have l: "\<not> type_is_list (heap ?st) (repr ?s)"
    by (simp add: type_is_list_def deref_def)
  have t: "\<forall>a n sh d. repr ?s = Ref a \<longrightarrow> deref (heap ?st) a \<noteq> Some (Tensor (n # sh) d)"
    by (simp add: deref_def)
  from len_unsupported_TypeError [OF l t] l show ?thesis by simp
qed

end
